theory Spec2Isabelle
  imports Main
begin

section \<open>Python values used by nyan.py\<close>

text \<open>
  A Python \<open>str\<close> is a sequence of Unicode code points, and \<open>len\<close> counts code
  points; a line of the buffer is therefore a list of code points. Python integers are
  unbounded, so cursor positions, key codes and terminal sizes are \<open>int\<close>.
\<close>

type_synonym pystr = "nat list"

definition codepoints :: "string \<Rightarrow> pystr" where
  "codepoints s = map of_char s"

definition LF :: nat where
  "LF = 10"

definition CR :: nat where
  "CR = 13"

text \<open>
  Exceptions are values. \<open>FileNotFoundError\<close> is the one that \<open>open(path, 'r')\<close> raises
  when there is no file. \<open>OSError msg\<close> stands for any other exception of the operating
  system raised while opening, reading or writing a file (\<open>PermissionError\<close>,
  \<open>IsADirectoryError\<close>, ...), and \<open>UnicodeEncodeError msg\<close> for a text that does not
  encode, both with \<open>str(e) = msg\<close>.
\<close>

datatype py_error =
    IndexError
  | ValueError
  | AttributeError
  | FileNotFoundError
  | OSError pystr
  | UnicodeEncodeError pystr

text \<open>
  The position that an index \<open>i\<close> names in a sequence of \<open>n\<close> items: \<open>i\<close> itself from
  \<open>0\<close> to \<open>n - 1\<close>, \<open>n + i\<close> from \<open>-n\<close> to \<open>-1\<close>, and none elsewhere.
\<close>

definition py_position :: "nat \<Rightarrow> int \<Rightarrow> nat option" where
  "py_position n i =
     (if 0 \<le> i \<and> i < int n then Some (nat i)
      else if - int n \<le> i \<and> i < 0 then Some (nat (int n + i))
      else None)"

text \<open>\<open>xs[i]\<close> raises \<open>IndexError\<close> when the index names no position.\<close>

definition py_index :: "'a list \<Rightarrow> int \<Rightarrow> py_error + 'a" where
  "py_index xs i =
     (case py_position (length xs) i of
        None \<Rightarrow> Inl IndexError
      | Some k \<Rightarrow> Inr (xs ! k))"

text \<open>\<open>xs[i] = v\<close>\<close>

definition py_setitem :: "'a list \<Rightarrow> int \<Rightarrow> 'a \<Rightarrow> py_error + 'a list" where
  "py_setitem xs i v =
     (case py_position (length xs) i of
        None \<Rightarrow> Inl IndexError
      | Some k \<Rightarrow> Inr (xs[k := v]))"

text \<open>
  The slices \<open>s[:i]\<close> and \<open>s[i:]\<close>: a negative bound counts from the end and every
  bound is clipped to the sequence, so a slice never raises.
\<close>

definition slice_bound :: "'a list \<Rightarrow> int \<Rightarrow> nat" where
  "slice_bound s i =
     (let n = int (length s) in
      if i < 0 then nat (max 0 (n + i)) else nat (min i n))"

definition slice_to :: "'a list \<Rightarrow> int \<Rightarrow> 'a list" where
  "slice_to s i = take (slice_bound s i) s"

definition slice_from :: "'a list \<Rightarrow> int \<Rightarrow> 'a list" where
  "slice_from s i = drop (slice_bound s i) s"

text \<open>\<open>xs.insert(i, v)\<close> clips the index like a slice bound and never raises.\<close>

definition py_insert :: "'a list \<Rightarrow> int \<Rightarrow> 'a \<Rightarrow> 'a list" where
  "py_insert xs i v = take (slice_bound xs i) xs @ [v] @ drop (slice_bound xs i) xs"

text \<open>\<open>xs.pop(i)\<close> raises on an index out of range; the popped value is not used.\<close>

definition py_pop :: "'a list \<Rightarrow> int \<Rightarrow> py_error + 'a list" where
  "py_pop xs i =
     (case py_position (length xs) i of
        None \<Rightarrow> Inl IndexError
      | Some k \<Rightarrow> Inr (take k xs @ drop (Suc k) xs))"

text \<open>\<open>chr(i)\<close> raises \<open>ValueError\<close> outside \<open>range(0x110000)\<close>.\<close>

definition py_chr :: "int \<Rightarrow> py_error + nat" where
  "py_chr i = (if 0 \<le> i \<and> i < 0x110000 then Inr (nat i) else Inl ValueError)"

definition ord :: "char \<Rightarrow> int" where
  "ord c = of_char c"

section \<open>The curses key codes\<close>

text \<open>
  The \<open>curses\<close> module is not part of the repository; these are the values of its
  key constants in ncurses (\<open>KEY_DOWN = 0o402\<close>, ...).
\<close>

definition KEY_DOWN :: int where
  "KEY_DOWN = 258"

definition KEY_UP :: int where
  "KEY_UP = 259"

definition KEY_LEFT :: int where
  "KEY_LEFT = 260"

definition KEY_RIGHT :: int where
  "KEY_RIGHT = 261"

definition KEY_HOME :: int where
  "KEY_HOME = 262"

definition KEY_BACKSPACE :: int where
  "KEY_BACKSPACE = 263"

definition KEY_DC :: int where
  "KEY_DC = 330"

definition KEY_END :: int where
  "KEY_END = 360"

section \<open>The files\<close>

text \<open>
  What the operating system holds for a path, as far as \<open>open\<close>, \<open>readlines\<close> and \<open>write\<close>
  show it:
  \<^item> \<open>content\<close>, the text of the file;
  \<^item> \<open>read_error\<close>, the exception that \<open>open(path, 'r')\<close> or the reading raises, if any:
    \<open>FileNotFoundError\<close> when there is no file, and otherwise an \<open>OSError\<close> (a file
    without read permission, a directory) or a decoding error;
  \<^item> \<open>write_error\<close>, the exception that \<open>open(path, 'w')\<close> raises, if any (a file without
    write permission, a directory that does not exist);
  \<^item> \<open>write_fails d s\<close>, the exception that \<open>file.write(s)\<close> raises, if any, when the
    open file holds \<open>d\<close>: a \<open>UnicodeEncodeError\<close> when \<open>s\<close> does not encode, an \<open>OSError\<close>
    when the device is full.
  The exceptions of writing are \<open>OSError msg\<close> or \<open>UnicodeEncodeError msg\<close>: \<open>save_file\<close>
  catches them whatever their class and reads \<open>str(e)\<close> only.
\<close>

record file_entry =
  content :: pystr
  read_error :: "py_error option"
  write_error :: "py_error option"
  write_fails :: "pystr \<Rightarrow> pystr \<Rightarrow> py_error option"

text \<open>
  Three entries: no file, in a directory where one can be made; a file that opens both
  ways and takes every write; a path where \<open>open\<close> raises the same \<open>OSError\<close> both ways.
\<close>

definition Absent :: file_entry where
  "Absent =
     \<lparr>content = [], read_error = Some FileNotFoundError, write_error = None,
      write_fails = (\<lambda>d s. None)\<rparr>"

definition Regular :: "pystr \<Rightarrow> file_entry" where
  "Regular d =
     \<lparr>content = d, read_error = None, write_error = None, write_fails = (\<lambda>d s. None)\<rparr>"

definition Failing :: "pystr \<Rightarrow> file_entry" where
  "Failing msg =
     \<lparr>content = [], read_error = Some (OSError msg), write_error = Some (OSError msg),
      write_fails = (\<lambda>d s. None)\<rparr>"

type_synonym filesystem = "pystr \<Rightarrow> file_entry"

text \<open>\<open>open(path, 'r')\<close> and the reading of the whole text.\<close>

definition open_read :: "filesystem \<Rightarrow> pystr \<Rightarrow> py_error + pystr" where
  "open_read fs path =
     (case read_error (fs path) of
        Some err \<Rightarrow> Inl err
      | None \<Rightarrow> Inr (content (fs path)))"

text \<open>
  \<open>open(path, 'w')\<close> makes the file or empties it. A file that was missing is there
  afterwards; a file that could not be read still cannot.
\<close>

definition open_write :: "filesystem \<Rightarrow> pystr \<Rightarrow> py_error + filesystem" where
  "open_write fs path =
     (case write_error (fs path) of
        Some err \<Rightarrow> Inl err
      | None \<Rightarrow>
          Inr (fs(path := (fs path)
                 \<lparr>content := [],
                  read_error := (if read_error (fs path) = Some FileNotFoundError then None
                                 else read_error (fs path))\<rparr>)))"

text \<open>
  \<open>file.write(s)\<close> adds \<open>s\<close> to the open file, or raises and adds nothing (no newline
  translation, as on POSIX). What was written before stays in the file when it is closed.
\<close>

definition file_write :: "filesystem \<Rightarrow> pystr \<Rightarrow> pystr \<Rightarrow> py_error + filesystem" where
  "file_write fs path s =
     (case write_fails (fs path) (content (fs path)) s of
        Some err \<Rightarrow> Inl err
      | None \<Rightarrow> Inr (fs(path := (fs path)\<lparr>content := content (fs path) @ s\<rparr>)))"

text \<open>
  A file opened with \<open>open(path, 'r')\<close> is read in universal-newlines mode: \<open>\r\n\<close> and a
  lone \<open>\r\<close> reach the program as \<open>\n\<close>.
\<close>

fun universal_newlines :: "pystr \<Rightarrow> pystr" where
  "universal_newlines [] = []"
| "universal_newlines [c] = [if c = CR then LF else c]"
| "universal_newlines (c # d # ds) =
     (if c = CR \<and> d = LF then LF # universal_newlines ds
      else if c = CR then LF # universal_newlines (d # ds)
      else c # universal_newlines (d # ds))"

text \<open>
  \<open>file.readlines()\<close>: the text cut after every \<open>\n\<close>, each line keeping its \<open>\n\<close>; a last
  line without one is kept when it is not empty. \<open>cur\<close> is the line read so far.
\<close>

fun split_keepends :: "pystr \<Rightarrow> pystr \<Rightarrow> pystr list" where
  "split_keepends cur [] = (if cur = [] then [] else [cur])"
| "split_keepends cur (c # cs) =
     (if c = LF then (cur @ [c]) # split_keepends [] cs
      else split_keepends (cur @ [c]) cs)"

definition readlines :: "pystr \<Rightarrow> pystr list" where
  "readlines d = split_keepends [] (universal_newlines d)"

text \<open>\<open>line.rstrip('\n')\<close> removes every trailing \<open>\n\<close>.\<close>

definition rstrip_newline :: "pystr \<Rightarrow> pystr" where
  "rstrip_newline line = rev (dropWhile (\<lambda>c. c = LF) (rev line))"

section \<open>TextEditor\<close>

text \<open>
  The fields of \<open>TextEditor\<close>. The field \<open>text\<close> is \<open>text_lines\<close> here. \<open>cat_editor\<close> is
  the back-reference to the \<open>CatEditor\<close>: \<open>False\<close> is Python's \<open>None\<close>, which the
  constructor stores until \<open>CatEditor\<close> sets the reference. The window \<open>stdscr\<close> is not
  a field of the model: the terminal height it reports and the keys it delivers are
  arguments of the functions that ask for them.
\<close>

record text_editor =
  filename :: "pystr option"
  text_lines :: "pystr list"
  cursor_x :: int
  cursor_y :: int
  scroll_y :: int
  status_message :: pystr
  status_timer :: int
  modified :: bool
  cat_editor :: bool

definition set_status_message :: "pystr \<Rightarrow> int \<Rightarrow> text_editor \<Rightarrow> text_editor" where
  "set_status_message msg ttl e = e\<lparr>status_message := msg, status_timer := ttl\<rparr>"

text \<open>\<open>if self.filename:\<close> holds for a name that is neither \<open>None\<close> nor empty.\<close>

definition filename_set :: "text_editor \<Rightarrow> pystr option" where
  "filename_set e =
     (case filename e of
        None \<Rightarrow> None
      | Some p \<Rightarrow> if p = [] then None else Some p)"

definition load_file :: "filesystem \<Rightarrow> text_editor \<Rightarrow> py_error + text_editor" where
  "load_file fs e =
     (case filename_set e of
        Some p \<Rightarrow>
          (case open_read fs p of
             Inr d \<Rightarrow>
               Inr (set_status_message (codepoints ''Read file: '' @ p) 5
                      (e\<lparr>text_lines := map rstrip_newline (readlines d)\<rparr>))
           | Inl FileNotFoundError \<Rightarrow>
               Inr (set_status_message (codepoints ''New file: '' @ p) 5
                      (e\<lparr>text_lines := [[]]\<rparr>))
           | Inl err \<Rightarrow> Inl err)
      | None \<Rightarrow>
          Inr (set_status_message (codepoints ''New buffer'') 5 (e\<lparr>text_lines := [[]]\<rparr>)))"

text \<open>The constructor \<open>TextEditor(stdscr, filename)\<close>.\<close>

definition TextEditor_init :: "filesystem \<Rightarrow> pystr option \<Rightarrow> py_error + text_editor" where
  "TextEditor_init fs name =
     load_file fs
       \<lparr>filename = name, text_lines = [], cursor_x = 0, cursor_y = 0, scroll_y = 0,
        status_message = [], status_timer = 0, modified = False, cat_editor = False\<rparr>"

text \<open>
  The loop of \<open>save_file\<close>: one \<open>file.write(line + '\n')\<close> for each line, up to the first
  one that raises. The result is the files and the exception raised, if any.
\<close>

fun write_lines :: "filesystem \<Rightarrow> pystr \<Rightarrow> pystr list \<Rightarrow> filesystem \<times> py_error option" where
  "write_lines fs path [] = (fs, None)"
| "write_lines fs path (line # rest) =
     (case file_write fs path (line @ [LF]) of
        Inl err \<Rightarrow> (fs, Some err)
      | Inr fs' \<Rightarrow> write_lines fs' path rest)"

text \<open>\<open>str(e)\<close> of a caught exception.\<close>

definition py_str :: "py_error \<Rightarrow> pystr" where
  "py_str err =
     (case err of
        OSError msg \<Rightarrow> msg
      | UnicodeEncodeError msg \<Rightarrow> msg
      | _ \<Rightarrow> [])"

text \<open>
  \<open>save_file\<close> returns the files, the editor and the boolean the method returns. Its
  \<open>except Exception\<close> catches every failure of \<open>open\<close> and of \<open>write\<close>; after a failed
  \<open>write\<close> the file holds the lines written before it, and the buffer stays modified.
\<close>

definition save_file :: "filesystem \<Rightarrow> text_editor \<Rightarrow> filesystem \<times> text_editor \<times> bool" where
  "save_file fs e =
     (case filename_set e of
        None \<Rightarrow> (fs, e, False)
      | Some p \<Rightarrow>
          (case open_write fs p of
             Inl err \<Rightarrow>
               (fs, set_status_message (codepoints ''Error saving: '' @ py_str err) 5 e, False)
           | Inr fs1 \<Rightarrow>
               (case write_lines fs1 p (text_lines e) of
                  (fs2, Some err) \<Rightarrow>
                    (fs2, set_status_message (codepoints ''Error saving: '' @ py_str err) 5 e,
                     False)
                | (fs2, None) \<Rightarrow>
                    (fs2,
                     set_status_message (codepoints ''Saved: '' @ p) 5 (e\<lparr>modified := False\<rparr>),
                     True))))"

text \<open>\<open>if not self.text: self.text = [""]\<close>\<close>

definition ensure_line :: "text_editor \<Rightarrow> text_editor" where
  "ensure_line e = (if text_lines e = [] then e\<lparr>text_lines := [[]]\<rparr> else e)"

definition insert_char :: "int \<Rightarrow> text_editor \<Rightarrow> py_error + text_editor" where
  "insert_char ch e0 =
     (let e = ensure_line e0 in
      case py_index (text_lines e) (cursor_y e) of
        Inl err \<Rightarrow> Inl err
      | Inr current_line \<Rightarrow>
          (case py_chr ch of
             Inl err \<Rightarrow> Inl err
           | Inr c \<Rightarrow>
               (case py_setitem (text_lines e) (cursor_y e)
                       (slice_to current_line (cursor_x e) @ [c]
                          @ slice_from current_line (cursor_x e)) of
                  Inl err \<Rightarrow> Inl err
                | Inr t \<Rightarrow>
                    Inr (e\<lparr>text_lines := t, cursor_x := cursor_x e + 1, modified := True\<rparr>))))"

definition insert_newline :: "text_editor \<Rightarrow> py_error + text_editor" where
  "insert_newline e0 =
     (let e = ensure_line e0 in
      case py_index (text_lines e) (cursor_y e) of
        Inl err \<Rightarrow> Inl err
      | Inr current_line \<Rightarrow>
          (case py_setitem (text_lines e) (cursor_y e) (slice_to current_line (cursor_x e)) of
             Inl err \<Rightarrow> Inl err
           | Inr t \<Rightarrow>
               Inr (e\<lparr>text_lines :=
                        py_insert t (cursor_y e + 1) (slice_from current_line (cursor_x e)),
                      cursor_y := cursor_y e + 1, cursor_x := 0, modified := True\<rparr>)))"

definition delete_char :: "text_editor \<Rightarrow> py_error + text_editor" where
  "delete_char e =
     (if text_lines e = [] then Inr e
      else
        case py_index (text_lines e) (cursor_y e) of
          Inl err \<Rightarrow> Inl err
        | Inr current_line \<Rightarrow>
            if cursor_x e > 0 then
              (case py_setitem (text_lines e) (cursor_y e)
                      (slice_to current_line (cursor_x e - 1)
                         @ slice_from current_line (cursor_x e)) of
                 Inl err \<Rightarrow> Inl err
               | Inr t \<Rightarrow>
                   Inr (e\<lparr>text_lines := t, cursor_x := cursor_x e - 1, modified := True\<rparr>))
            else if cursor_y e > 0 then
              (case py_index (text_lines e) (cursor_y e - 1) of
                 Inl err \<Rightarrow> Inl err
               | Inr prev_line \<Rightarrow>
                   (case py_setitem (text_lines e) (cursor_y e - 1) (prev_line @ current_line) of
                      Inl err \<Rightarrow> Inl err
                    | Inr t \<Rightarrow>
                        (case py_pop t (cursor_y e) of
                           Inl err \<Rightarrow> Inl err
                         | Inr t' \<Rightarrow>
                             Inr (e\<lparr>cursor_x := int (length prev_line), text_lines := t',
                                    cursor_y := cursor_y e - 1, modified := True\<rparr>))))
            else Inr e)"

definition move_cursor :: "int \<Rightarrow> text_editor \<Rightarrow> py_error + text_editor" where
  "move_cursor key e =
     (if key = KEY_RIGHT then
        (case py_index (text_lines e) (cursor_y e) of
           Inl err \<Rightarrow> Inl err
         | Inr line \<Rightarrow>
             if cursor_x e < int (length line) then Inr (e\<lparr>cursor_x := cursor_x e + 1\<rparr>)
             else if cursor_y e < int (length (text_lines e)) - 1 then
               Inr (e\<lparr>cursor_y := cursor_y e + 1, cursor_x := 0\<rparr>)
             else Inr e)
      else if key = KEY_LEFT then
        (if cursor_x e > 0 then Inr (e\<lparr>cursor_x := cursor_x e - 1\<rparr>)
         else if cursor_y e > 0 then
           (case py_index (text_lines e) (cursor_y e - 1) of
              Inl err \<Rightarrow> Inl err
            | Inr line \<Rightarrow> Inr (e\<lparr>cursor_y := cursor_y e - 1, cursor_x := int (length line)\<rparr>))
         else Inr e)
      else if key = KEY_UP then
        (if cursor_y e > 0 then
           (case py_index (text_lines e) (cursor_y e - 1) of
              Inl err \<Rightarrow> Inl err
            | Inr line \<Rightarrow>
                Inr (e\<lparr>cursor_y := cursor_y e - 1,
                       cursor_x := min (cursor_x e) (int (length line))\<rparr>))
         else Inr e)
      else if key = KEY_DOWN then
        (if cursor_y e < int (length (text_lines e)) - 1 then
           (case py_index (text_lines e) (cursor_y e + 1) of
              Inl err \<Rightarrow> Inl err
            | Inr line \<Rightarrow>
                Inr (e\<lparr>cursor_y := cursor_y e + 1,
                       cursor_x := min (cursor_x e) (int (length line))\<rparr>))
         else Inr e)
      else if key = KEY_HOME then Inr (e\<lparr>cursor_x := 0\<rparr>)
      else if key = KEY_END then
        (case py_index (text_lines e) (cursor_y e) of
           Inl err \<Rightarrow> Inl err
         | Inr line \<Rightarrow> Inr (e\<lparr>cursor_x := int (length line)\<rparr>))
      else Inr e)"

section \<open>The layout of CatEditor\<close>

text \<open>
  \<open>CatEditor.__init__\<close> sets these three fields once and nothing assigns them again.
\<close>

definition min_editor_lines :: int where
  "min_editor_lines = 5"

definition cat_head_height :: int where
  "cat_head_height = 3"

definition cat_bottom_height :: int where
  "cat_bottom_height = 4"

text \<open>
  \<open>calculate_editor_space\<close>, from the height that \<open>stdscr.getmaxyx()\<close> reports and the
  lines of the editor.
\<close>

definition calculate_editor_space :: "int \<Rightarrow> pystr list \<Rightarrow> int" where
  "calculate_editor_space height txt =
     (let max_available = height - cat_head_height - cat_bottom_height - 1;
          desired_lines = int (length txt) + 5;
          editor_lines = min desired_lines max_available
      in max editor_lines min_editor_lines)"

text \<open>
  The rows that \<open>draw_cat\<close> hands to \<open>self.editor.draw(editor_start_row, editor_end_row)\<close>;
  \<open>None\<close> when the terminal is too small and \<open>draw_cat\<close> returns \<open>False\<close> before any
  layout. The drawing calls themselves are not modelled.
\<close>

definition draw_cat_rows :: "int \<Rightarrow> int \<Rightarrow> pystr list \<Rightarrow> (int \<times> int) option" where
  "draw_cat_rows height width txt =
     (if height < 10 \<or> width < 50 then None
      else
        let editor_lines = calculate_editor_space height txt;
            editor_start_row = cat_head_height;
            editor_end_row = editor_start_row + editor_lines;
            editor_end_row' =
              (if editor_end_row \<ge> height - cat_bottom_height then height - cat_bottom_height
               else editor_end_row)
        in Some (editor_start_row, editor_end_row'))"

section \<open>Scrolling and keys\<close>

text \<open>The two adjustments of \<open>scroll_if_needed\<close>, for a given \<open>editor_height\<close>.\<close>

definition scroll_to_cursor :: "int \<Rightarrow> text_editor \<Rightarrow> text_editor" where
  "scroll_to_cursor editor_height e =
     (let e1 = (if cursor_y e - scroll_y e \<ge> editor_height
                then e\<lparr>scroll_y := cursor_y e - editor_height + 1\<rparr> else e)
      in if cursor_y e1 < scroll_y e1 then e1\<lparr>scroll_y := cursor_y e1\<rparr> else e1)"

text \<open>
  \<open>scroll_if_needed\<close>: \<open>hasattr(self, 'cat_editor')\<close> holds for every editor, since the
  constructor assigns the attribute; reading a field of \<open>None\<close> raises \<open>AttributeError\<close>.
\<close>

definition scroll_if_needed :: "int \<Rightarrow> text_editor \<Rightarrow> py_error + text_editor" where
  "scroll_if_needed height e =
     (if \<not> cat_editor e then Inl AttributeError
      else Inr (scroll_to_cursor (calculate_editor_space height (text_lines e)) e))"

text \<open>The end of \<open>process_keypress\<close>: the cursor is put back in bounds, then the scroll.\<close>

definition clamp_and_scroll :: "int \<Rightarrow> text_editor \<Rightarrow> py_error + text_editor" where
  "clamp_and_scroll height e =
     (let e1 = (if cursor_y e \<ge> int (length (text_lines e))
                then e\<lparr>cursor_y := int (length (text_lines e)) - 1\<rparr> else e)
      in case py_index (text_lines e1) (cursor_y e1) of
           Inl err \<Rightarrow> Inl err
         | Inr line \<Rightarrow>
             scroll_if_needed height
               (if cursor_x e1 > int (length line) then e1\<lparr>cursor_x := int (length line)\<rparr>
                else e1))"

text \<open>
  \<open>process_keypress\<close>. \<open>height\<close> is the terminal height and \<open>confirm\<close> the key that
  \<open>stdscr.getch()\<close> returns at the prompt of Ctrl+X; it is read on that branch only. The
  result holds the files, the editor and the returned boolean (\<open>False\<close>: leave the editor).
\<close>

definition process_keypress ::
  "filesystem \<Rightarrow> int \<Rightarrow> int \<Rightarrow> int \<Rightarrow> text_editor \<Rightarrow> py_error + (filesystem \<times> text_editor \<times> bool)"
where
  "process_keypress fs height confirm key e =
     (let continue = (\<lambda>fs' r. case r of
                         Inl err \<Rightarrow> Inl err
                       | Inr e' \<Rightarrow>
                           (case clamp_and_scroll height e' of
                              Inl err \<Rightarrow> Inl err
                            | Inr e'' \<Rightarrow> Inr (fs', e'', True)))
      in
      if key = KEY_RIGHT \<or> key = KEY_LEFT \<or> key = KEY_UP \<or> key = KEY_DOWN
         \<or> key = KEY_HOME \<or> key = KEY_END then continue fs (move_cursor key e)
      else if key = 10 \<or> key = 13 then continue fs (insert_newline e)
      else if key = 127 \<or> key = KEY_BACKSPACE then continue fs (delete_char e)
      else if key = KEY_DC then continue fs (Inr e)
      else if key = 24 then
        (if modified e then
           (let e1 = set_status_message (codepoints ''Save modified buffer? (y/n)'') 100 e in
            if confirm = ord CHR ''y'' \<or> confirm = ord CHR ''Y'' then
              (case save_file fs e1 of
                 (fs', e2, saved) \<Rightarrow> if \<not> saved then Inr (fs', e2, True) else Inr (fs', e2, False))
            else if \<not> (confirm = ord CHR ''n'' \<or> confirm = ord CHR ''N'') then
              Inr (fs, set_status_message (codepoints ''Cancelled exit'') 5 e1, True)
            else Inr (fs, e1, False))
         else Inr (fs, e, False))
      else if key = 19 then (case save_file fs e of (fs', e', saved) \<Rightarrow> continue fs' (Inr e'))
      else if 32 \<le> key \<and> key \<le> 126 then continue fs (insert_char key e)
      else continue fs (Inr e))"

section \<open>CatEditor\<close>

record cat_app =
  editor :: text_editor
  running :: bool

text \<open>The constructor \<open>CatEditor(stdscr, filename)\<close>, which sets the back-reference.\<close>

definition CatEditor_init :: "filesystem \<Rightarrow> pystr option \<Rightarrow> py_error + cat_app" where
  "CatEditor_init fs name =
     (case TextEditor_init fs name of
        Inl err \<Rightarrow> Inl err
      | Inr e \<Rightarrow> Inr \<lparr>editor = e\<lparr>cat_editor := True\<rparr>, running = True\<rparr>)"

text \<open>
  The input handling of one turn of the loop of \<open>run\<close>, after the screen is drawn:
  \<open>key\<close> is the key read by \<open>getch\<close> and \<open>ch\<close> the next one, read only at the prompt. The
  value returned by \<open>process_keypress\<close> is dropped, as the source drops it. The loop goes
  on while \<open>running\<close> holds. An interrupt signal is not a key and is not modelled.
\<close>

definition run_input ::
  "filesystem \<Rightarrow> int \<Rightarrow> int \<Rightarrow> int \<Rightarrow> cat_app \<Rightarrow> py_error + (filesystem \<times> cat_app)"
where
  "run_input fs height key ch c =
     (if key = ord CHR ''q'' \<or> key = 17 then
        (if modified (editor c) then
           Inr (fs, c\<lparr>editor := set_status_message
                  (codepoints ''Modified buffer exists! Use Ctrl+X to exit'') 5 (editor c)\<rparr>)
         else Inr (fs, c\<lparr>running := False\<rparr>))
      else if key = 24 then
        (if modified (editor c) then
           (let e1 = set_status_message (codepoints ''Save modified buffer? (Y/n)'') 5 (editor c) in
            if ch = ord CHR ''y'' \<or> ch = ord CHR ''Y'' \<or> ch = 10 then
              (case save_file fs e1 of
                 (fs', e2, saved) \<Rightarrow>
                   if saved then Inr (fs', c\<lparr>editor := e2, running := False\<rparr>)
                   else Inr (fs', c\<lparr>editor := e2\<rparr>))
            else if ch = ord CHR ''n'' \<or> ch = ord CHR ''N'' then
              Inr (fs, c\<lparr>editor := e1, running := False\<rparr>)
            else Inr (fs, c\<lparr>editor := e1\<rparr>))
         else Inr (fs, c\<lparr>running := False\<rparr>))
      else
        (case process_keypress fs height ch key (editor c) of
           Inl err \<Rightarrow> Inl err
         | Inr (fs', e', r) \<Rightarrow> Inr (fs', c\<lparr>editor := e'\<rparr>)))"

section \<open>The invariants of the data model\<close>

definition document_inv :: "text_editor \<Rightarrow> bool" where
  "document_inv e = (1 \<le> length (text_lines e))"

definition cursor_inv :: "text_editor \<Rightarrow> bool" where
  "cursor_inv e =
     (0 \<le> cursor_y e \<and> cursor_y e < int (length (text_lines e))
      \<and> 0 \<le> cursor_x e
      \<and> cursor_x e \<le> int (length (text_lines e ! nat (cursor_y e))))"

definition valid :: "text_editor \<Rightarrow> bool" where
  "valid e = (document_inv e \<and> cursor_inv e)"

text \<open>An editor holding the lines \<open>txt\<close> with the cursor at \<open>(row, col)\<close>, for examples.\<close>

definition editor_at :: "pystr list \<Rightarrow> int \<Rightarrow> int \<Rightarrow> text_editor" where
  "editor_at txt row col =
     \<lparr>filename = None, text_lines = txt, cursor_x = col, cursor_y = row, scroll_y = 0,
      status_message = [], status_timer = 0, modified = False, cat_editor = True\<rparr>"

text \<open>A file system without any file.\<close>

definition empty_fs :: filesystem where
  "empty_fs = (\<lambda>path. Absent)"

text \<open>The text that the loop of \<open>save_file\<close> writes for a list of lines.\<close>

definition file_text :: "pystr list \<Rightarrow> pystr" where
  "file_text ls = concat (map (\<lambda>l. l @ [LF]) ls)"

section \<open>Sequences of edits\<close>

text \<open>
  The three editing operations as values, and the states that a sequence of them goes
  through: \<open>run_edits e ops\<close> lists the state after each operation, or is the first
  exception raised.
\<close>

datatype edit_op = InsertChar int | InsertNewline | DeleteBackward

fun apply_edit :: "edit_op \<Rightarrow> text_editor \<Rightarrow> py_error + text_editor" where
  "apply_edit (InsertChar ch) e = insert_char ch e"
| "apply_edit InsertNewline e = insert_newline e"
| "apply_edit DeleteBackward e = delete_char e"

fun run_edits :: "text_editor \<Rightarrow> edit_op list \<Rightarrow> py_error + text_editor list" where
  "run_edits e [] = Inr []"
| "run_edits e (x # xs) =
     (case apply_edit x e of
        Inl err \<Rightarrow> Inl err
      | Inr e' \<Rightarrow>
          (case run_edits e' xs of
             Inl err \<Rightarrow> Inl err
           | Inr es \<Rightarrow> Inr (e' # es)))"

text \<open>The argument of \<open>insert_char\<close> is the code of a character: \<open>chr\<close> accepts it.\<close>

fun edit_ok :: "edit_op \<Rightarrow> bool" where
  "edit_ok (InsertChar ch) = (0 \<le> ch \<and> ch < 0x110000)"
| "edit_ok InsertNewline = True"
| "edit_ok DeleteBackward = True"

section \<open>Python indexing inside the bounds\<close>

lemma py_index_in_range:
  "0 \<le> i \<Longrightarrow> i < int (length xs) \<Longrightarrow> py_index xs i = Inr (xs ! nat i)"
  by (simp add: py_index_def py_position_def)

lemma py_setitem_in_range:
  "0 \<le> i \<Longrightarrow> i < int (length xs) \<Longrightarrow> py_setitem xs i v = Inr (xs[nat i := v])"
  by (simp add: py_setitem_def py_position_def)

lemma py_pop_in_range:
  "0 \<le> i \<Longrightarrow> i < int (length xs) \<Longrightarrow>
   py_pop xs i = Inr (take (nat i) xs @ drop (Suc (nat i)) xs)"
  by (simp add: py_pop_def py_position_def)

lemma slice_bound_in_range:
  "0 \<le> i \<Longrightarrow> i \<le> int (length s) \<Longrightarrow> slice_bound s i = nat i"
  by (simp add: slice_bound_def min_def)

lemma slice_to_in_range:
  "0 \<le> i \<Longrightarrow> i \<le> int (length s) \<Longrightarrow> slice_to s i = take (nat i) s"
  by (simp add: slice_to_def slice_bound_in_range)

lemma slice_from_in_range:
  "0 \<le> i \<Longrightarrow> i \<le> int (length s) \<Longrightarrow> slice_from s i = drop (nat i) s"
  by (simp add: slice_from_def slice_bound_in_range)

lemma py_insert_in_range:
  "0 \<le> i \<Longrightarrow> i \<le> int (length xs) \<Longrightarrow>
   py_insert xs i v = take (nat i) xs @ [v] @ drop (nat i) xs"
  by (simp add: py_insert_def slice_bound_in_range)

lemma ensure_line_valid: "valid e \<Longrightarrow> ensure_line e = e"
  by (auto simp: ensure_line_def valid_def document_inv_def)

lemma valid_row: "valid e \<Longrightarrow> 0 \<le> cursor_y e \<and> cursor_y e < int (length (text_lines e))"
  by (simp add: valid_def cursor_inv_def)

lemma valid_col:
  "valid e \<Longrightarrow> 0 \<le> cursor_x e \<and> cursor_x e \<le> int (length (text_lines e ! nat (cursor_y e)))"
  by (simp add: valid_def cursor_inv_def)

section \<open>The edits on a valid state\<close>

lemma insert_char_valid:
  assumes "valid e" and "0 \<le> ch" and "ch < 0x110000"
  shows "insert_char ch e =
           Inr (e\<lparr>text_lines :=
                    (text_lines e)[nat (cursor_y e) :=
                       take (nat (cursor_x e)) (text_lines e ! nat (cursor_y e)) @ [nat ch]
                       @ drop (nat (cursor_x e)) (text_lines e ! nat (cursor_y e))],
                  cursor_x := cursor_x e + 1, modified := True\<rparr>)"
  using assms valid_row [OF assms(1)] valid_col [OF assms(1)]
  by (simp add: insert_char_def ensure_line_valid py_index_in_range py_chr_def
      py_setitem_in_range slice_to_in_range slice_from_in_range)

lemma insert_newline_valid:
  assumes "valid e"
  shows "insert_newline e =
           Inr (e\<lparr>text_lines :=
                    take (nat (cursor_y e)) (text_lines e)
                    @ [take (nat (cursor_x e)) (text_lines e ! nat (cursor_y e)),
                       drop (nat (cursor_x e)) (text_lines e ! nat (cursor_y e))]
                    @ drop (Suc (nat (cursor_y e))) (text_lines e),
                  cursor_y := cursor_y e + 1, cursor_x := 0, modified := True\<rparr>)"
proof -
  let ?r = "nat (cursor_y e)" and ?c = "nat (cursor_x e)" and ?t = "text_lines e"
  from assms have row: "0 \<le> cursor_y e" "cursor_y e < int (length ?t)"
    by (simp_all add: valid_row)
  from assms have col: "0 \<le> cursor_x e" "cursor_x e \<le> int (length (?t ! ?r))"
    by (simp_all add: valid_col)
  have r: "?r < length ?t" using row by simp
  have ins: "py_insert (?t[?r := take ?c (?t ! ?r)]) (cursor_y e + 1) (drop ?c (?t ! ?r))
             = take ?r ?t @ [take ?c (?t ! ?r), drop ?c (?t ! ?r)] @ drop (Suc ?r) ?t"
  proof -
    have "nat (cursor_y e + 1) = Suc ?r" using row by simp
    moreover have "take (Suc ?r) (?t[?r := take ?c (?t ! ?r)]) = take ?r ?t @ [take ?c (?t ! ?r)]"
      using r by (simp add: take_Suc_conv_app_nth)
    ultimately show ?thesis
      using row by (simp add: py_insert_in_range)
  qed
  show ?thesis
    using row col ins
    by (simp add: insert_newline_def ensure_line_valid [OF assms] py_index_in_range
        py_setitem_in_range slice_to_in_range slice_from_in_range)
qed

lemma take_row_update:
  "Suc p < length t \<Longrightarrow> take (Suc p) (t[p := v]) = take p t @ [v]"
  by (simp add: take_Suc_conv_app_nth)

lemma delete_char_at_column:
  assumes "valid e" and "cursor_x e > 0"
  shows "delete_char e =
           Inr (e\<lparr>text_lines :=
                      (text_lines e)[nat (cursor_y e) :=
                         take (nat (cursor_x e - 1)) (text_lines e ! nat (cursor_y e))
                         @ drop (nat (cursor_x e)) (text_lines e ! nat (cursor_y e))],
                    cursor_x := cursor_x e - 1, modified := True\<rparr>)"
proof -
  let ?r = "nat (cursor_y e)" and ?t = "text_lines e"
  have row: "0 \<le> cursor_y e" "cursor_y e < int (length ?t)"
    using valid_row [OF assms(1)] by simp_all
  have col: "0 \<le> cursor_x e" "cursor_x e \<le> int (length (?t ! ?r))"
    using valid_col [OF assms(1)] by simp_all
  have ne: "?t \<noteq> []" using row by auto
  have cur: "py_index ?t (cursor_y e) = Inr (?t ! ?r)"
    using row by (simp add: py_index_in_range)
  have a: "slice_to (?t ! ?r) (cursor_x e - 1) = take (nat (cursor_x e - 1)) (?t ! ?r)"
    using assms(2) col by (simp add: slice_to_in_range)
  have b: "slice_from (?t ! ?r) (cursor_x e) = drop (nat (cursor_x e)) (?t ! ?r)"
    using col by (simp add: slice_from_in_range)
  have c: "py_setitem ?t (cursor_y e) v = Inr (?t[?r := v])" for v
    using row by (simp add: py_setitem_in_range)
  show ?thesis
    unfolding delete_char_def using ne assms(2) by (simp add: cur a b c)
qed

lemma delete_char_at_line_start:
  assumes "valid e" and "\<not> cursor_x e > 0" and "cursor_y e > 0"
  shows "delete_char e =
           Inr (e\<lparr>text_lines :=
                      take (nat (cursor_y e - 1)) (text_lines e)
                      @ [text_lines e ! nat (cursor_y e - 1) @ text_lines e ! nat (cursor_y e)]
                      @ drop (Suc (nat (cursor_y e))) (text_lines e),
                    cursor_x := int (length (text_lines e ! nat (cursor_y e - 1))),
                    cursor_y := cursor_y e - 1, modified := True\<rparr>)"
proof -
  let ?r = "nat (cursor_y e)" and ?p = "nat (cursor_y e - 1)" and ?t = "text_lines e"
  have row: "0 \<le> cursor_y e" "cursor_y e < int (length ?t)"
    using valid_row [OF assms(1)] by simp_all
  have ne: "?t \<noteq> []" using row by auto
  have p: "Suc ?p = ?r" "Suc ?p < length ?t" using assms(3) row by simp_all
  have cur: "py_index ?t (cursor_y e) = Inr (?t ! ?r)"
    using row by (simp add: py_index_in_range)
  have prev: "py_index ?t (cursor_y e - 1) = Inr (?t ! ?p)"
    using row assms(3) by (simp add: py_index_in_range)
  have set: "py_setitem ?t (cursor_y e - 1) v = Inr (?t[?p := v])" for v
    using row assms(3) by (simp add: py_setitem_in_range)
  have "take ?r (?t[?p := v]) = take ?p ?t @ [v]" for v
    using take_row_update [OF p(2)] p(1) by simp
  then have pop: "py_pop (?t[?p := v]) (cursor_y e) = Inr (take ?p ?t @ [v] @ drop (Suc ?r) ?t)" for v
    using row by (simp add: py_pop_in_range)
  show ?thesis
    unfolding delete_char_def using ne assms(2,3) by (simp add: cur prev set pop)
qed

lemma delete_char_at_origin:
  assumes "valid e" and "\<not> cursor_x e > 0" and "\<not> cursor_y e > 0"
  shows "delete_char e = Inr e"
proof -
  have row: "0 \<le> cursor_y e" "cursor_y e < int (length (text_lines e))"
    using valid_row [OF assms(1)] by simp_all
  have ne: "text_lines e \<noteq> []" using row by auto
  have cur: "py_index (text_lines e) (cursor_y e) = Inr (text_lines e ! nat (cursor_y e))"
    using row by (simp add: py_index_in_range)
  show ?thesis
    unfolding delete_char_def using ne assms(2,3) by (simp add: cur)
qed

lemma delete_char_valid:
  assumes "valid e"
  shows "delete_char e =
           Inr (if cursor_x e > 0 then
                  e\<lparr>text_lines :=
                      (text_lines e)[nat (cursor_y e) :=
                         take (nat (cursor_x e - 1)) (text_lines e ! nat (cursor_y e))
                         @ drop (nat (cursor_x e)) (text_lines e ! nat (cursor_y e))],
                    cursor_x := cursor_x e - 1, modified := True\<rparr>
                else if cursor_y e > 0 then
                  e\<lparr>text_lines :=
                      take (nat (cursor_y e - 1)) (text_lines e)
                      @ [text_lines e ! nat (cursor_y e - 1) @ text_lines e ! nat (cursor_y e)]
                      @ drop (Suc (nat (cursor_y e))) (text_lines e),
                    cursor_x := int (length (text_lines e ! nat (cursor_y e - 1))),
                    cursor_y := cursor_y e - 1, modified := True\<rparr>
                else e)"
  using delete_char_at_column [OF assms] delete_char_at_line_start [OF assms]
    delete_char_at_origin [OF assms]
  by (cases "cursor_x e > 0"; cases "cursor_y e > 0") simp_all

lemma insert_char_preserves_valid:
  assumes "valid e" and "0 \<le> ch" and "ch < 0x110000"
  shows "\<exists>e'. insert_char ch e = Inr e' \<and> valid e'"
proof -
  have row: "0 \<le> cursor_y e" "cursor_y e < int (length (text_lines e))"
    using valid_row [OF assms(1)] by simp_all
  have col: "0 \<le> cursor_x e" "cursor_x e \<le> int (length (text_lines e ! nat (cursor_y e)))"
    using valid_col [OF assms(1)] by simp_all
  show ?thesis
    unfolding insert_char_valid [OF assms]
    using row col by (simp add: valid_def document_inv_def cursor_inv_def)
qed

lemma insert_newline_preserves_valid:
  assumes "valid e"
  shows "\<exists>e'. insert_newline e = Inr e' \<and> valid e'"
proof -
  have row: "0 \<le> cursor_y e" "cursor_y e < int (length (text_lines e))"
    using valid_row [OF assms(1)] by simp_all
  have n: "nat (cursor_y e + 1) = Suc (nat (cursor_y e))"
    using row by simp
  have len: "length (take (nat (cursor_y e)) (text_lines e)) = nat (cursor_y e)"
    using row by simp
  show ?thesis
    unfolding insert_newline_valid [OF assms]
    using row by (simp add: valid_def document_inv_def cursor_inv_def n nth_append len)
qed

lemma delete_char_preserves_valid:
  assumes "valid e"
  shows "\<exists>e'. delete_char e = Inr e' \<and> valid e'"
proof -
  let ?r = "nat (cursor_y e)" and ?t = "text_lines e"
  have row: "0 \<le> cursor_y e" "cursor_y e < int (length ?t)"
    using valid_row [OF assms(1)] by simp_all
  have col: "0 \<le> cursor_x e" "cursor_x e \<le> int (length (?t ! ?r))"
    using valid_col [OF assms(1)] by simp_all
  show ?thesis
  proof (cases "cursor_x e > 0")
    case True
    then show ?thesis
      unfolding delete_char_valid [OF assms]
      using row col by (simp add: valid_def document_inv_def cursor_inv_def)
  next
    case False
    note x0 = False
    show ?thesis
    proof (cases "cursor_y e > 0")
      case True
      let ?p = "nat (cursor_y e - 1)"
      have len: "length (take ?p ?t) = ?p" using row by simp
      show ?thesis
        unfolding delete_char_valid [OF assms]
        using True x0 row by (simp add: valid_def document_inv_def cursor_inv_def nth_append len)
    next
      case False
      then show ?thesis
        unfolding delete_char_valid [OF assms]
        using x0 assms by simp
    qed
  qed
qed

section \<open>Cursor motion\<close>

lemma move_cursor_total:
  assumes "valid e"
  shows "\<exists>e'. move_cursor key e = Inr e'"
proof -
  have row: "0 \<le> cursor_y e" "cursor_y e < int (length (text_lines e))"
    using valid_row [OF assms(1)] by simp_all
  have cur: "py_index (text_lines e) (cursor_y e) = Inr (text_lines e ! nat (cursor_y e))"
    using row by (simp add: py_index_in_range)
  have up: "0 < cursor_y e \<Longrightarrow>
      py_index (text_lines e) (cursor_y e - 1) = Inr (text_lines e ! nat (cursor_y e - 1))"
    using row by (simp add: py_index_in_range)
  have down: "cursor_y e < int (length (text_lines e)) - 1 \<Longrightarrow>
      py_index (text_lines e) (cursor_y e + 1) = Inr (text_lines e ! nat (cursor_y e + 1))"
    using row by (simp add: py_index_in_range)
  show ?thesis
    unfolding move_cursor_def using cur up down by simp
qed

lemma move_cursor_frame:
  "move_cursor key e = Inr e' \<Longrightarrow> text_lines e' = text_lines e \<and> modified e' = modified e
     \<and> filename e' = filename e \<and> scroll_y e' = scroll_y e"
  by (auto simp add: move_cursor_def split: if_splits sum.splits)

lemma move_cursor_valid:
  assumes "valid e" and "move_cursor key e = Inr e'"
  shows "valid e'"
proof -
  have row: "0 \<le> cursor_y e" "cursor_y e < int (length (text_lines e))"
    using valid_row [OF assms(1)] by simp_all
  have col: "0 \<le> cursor_x e" "cursor_x e \<le> int (length (text_lines e ! nat (cursor_y e)))"
    using valid_col [OF assms(1)] by simp_all
  have up: "0 < cursor_y e \<Longrightarrow> py_index (text_lines e) (cursor_y e - 1) = Inr (text_lines e ! nat (cursor_y e - 1))"
    using row by (simp add: py_index_in_range)
  have down: "cursor_y e < int (length (text_lines e)) - 1 \<Longrightarrow>
      py_index (text_lines e) (cursor_y e + 1) = Inr (text_lines e ! nat (cursor_y e + 1))"
    using row by (simp add: py_index_in_range)
  have cur: "py_index (text_lines e) (cursor_y e) = Inr (text_lines e ! nat (cursor_y e))"
    using row by (simp add: py_index_in_range)
  have doc: "document_inv e" using assms(1) by (simp add: valid_def)
  have "cursor_inv e'"
    using assms(2) row col up down cur
    by (auto simp add: move_cursor_def cursor_inv_def split: if_splits)
  moreover have "document_inv e'"
    using doc move_cursor_frame [OF assms(2)] by (simp add: document_inv_def)
  ultimately show ?thesis by (simp add: valid_def)
qed

lemma move_cursor_on_valid_state:
  assumes "valid e"
  shows "\<exists>e'. move_cursor key e = Inr e'
           \<and> text_lines e' = text_lines e \<and> modified e' = modified e
           \<and> (key = KEY_LEFT \<and> cursor_y e = 0 \<and> cursor_x e = 0 \<longrightarrow> e' = e)
           \<and> (key = KEY_RIGHT \<and> cursor_y e = int (length (text_lines e)) - 1
                \<and> cursor_x e = int (length (last (text_lines e))) \<longrightarrow> e' = e)
           \<and> (key = KEY_UP \<and> cursor_y e = 0 \<longrightarrow> e' = e)
           \<and> (key = KEY_DOWN \<and> cursor_y e = int (length (text_lines e)) - 1 \<longrightarrow> e' = e)"
proof -
  from move_cursor_total [OF assms] obtain e' where e': "move_cursor key e = Inr e'"
    by blast
  have row: "0 \<le> cursor_y e" "cursor_y e < int (length (text_lines e))"
    using valid_row [OF assms(1)] by simp_all
  have left: "key = KEY_LEFT \<and> cursor_y e = 0 \<and> cursor_x e = 0 \<longrightarrow> e' = e"
    using e' by (auto simp add: move_cursor_def KEY_LEFT_def KEY_RIGHT_def)
  have right: "key = KEY_RIGHT \<and> cursor_y e = int (length (text_lines e)) - 1
                \<and> cursor_x e = int (length (last (text_lines e))) \<longrightarrow> e' = e"
  proof
    assume a: "key = KEY_RIGHT \<and> cursor_y e = int (length (text_lines e)) - 1
                \<and> cursor_x e = int (length (last (text_lines e)))"
    have ne: "text_lines e \<noteq> []" using row by auto
    have "nat (cursor_y e) = length (text_lines e) - 1" using a row by simp
    then have "text_lines e ! nat (cursor_y e) = last (text_lines e)"
      using ne by (simp add: last_conv_nth)
    then show "e' = e"
      using e' a row by (simp add: move_cursor_def py_index_in_range)
  qed
  have up: "key = KEY_UP \<and> cursor_y e = 0 \<longrightarrow> e' = e"
    using e' by (auto simp add: move_cursor_def KEY_LEFT_def KEY_RIGHT_def KEY_UP_def)
  have down: "key = KEY_DOWN \<and> cursor_y e = int (length (text_lines e)) - 1 \<longrightarrow> e' = e"
    using e' by (auto simp add: move_cursor_def KEY_LEFT_def KEY_RIGHT_def KEY_UP_def KEY_DOWN_def)
  show ?thesis
    using e' move_cursor_frame [OF e'] left right up down by simp
qed

section \<open>Scrolling and layout\<close>

lemma scroll_to_cursor_visible:
  assumes "0 < vh"
  shows "scroll_y (scroll_to_cursor vh e) \<le> cursor_y e
         \<and> cursor_y e < scroll_y (scroll_to_cursor vh e) + vh"
  using assms by (simp add: scroll_to_cursor_def Let_def)

lemma calculate_editor_space_pos: "0 < calculate_editor_space h txt"
  by (simp add: calculate_editor_space_def Let_def min_editor_lines_def)

section \<open>Saving and loading\<close>







lemma carriage_return_ends_a_line:
  "map rstrip_newline (readlines [97, CR, 98, LF]) = [[97], [98]]"
  by (simp add: readlines_def rstrip_newline_def LF_def CR_def)

text \<open>The writes of \<open>save_file\<close>.\<close>

lemma write_lines_done:
  "write_lines fs p ls = (fs2, None) \<Longrightarrow>
   fs2 = fs(p := (fs p)\<lparr>content := content (fs p) @ file_text ls\<rparr>)"
proof (induction ls arbitrary: fs)
  case Nil
  then show ?case by (simp add: file_text_def)
next
  case (Cons l ls)
  show ?case
  proof (cases "write_fails (fs p) (content (fs p)) (l @ [LF])")
    case (Some err)
    with Cons.prems show ?thesis by (simp add: file_write_def)
  next
    case None
    let ?fs1 = "fs(p := (fs p)\<lparr>content := content (fs p) @ l @ [LF]\<rparr>)"
    from None Cons.prems have "write_lines ?fs1 p ls = (fs2, None)"
      by (simp add: file_write_def)
    then have "fs2 = ?fs1(p := (?fs1 p)\<lparr>content := content (?fs1 p) @ file_text ls\<rparr>)"
      by (rule Cons.IH)
    also have "\<dots> = fs(p := (fs p)\<lparr>content := content (fs p) @ file_text (l # ls)\<rparr>)"
      by (simp add: file_text_def)
    finally show ?thesis .
  qed
qed

lemma write_lines_stopped:
  "write_lines fs p ls = (fs2, Some err) \<Longrightarrow>
   \<exists>ls1 l ls2. ls = ls1 @ l # ls2
     \<and> fs2 = fs(p := (fs p)\<lparr>content := content (fs p) @ file_text ls1\<rparr>)
     \<and> write_fails (fs p) (content (fs p) @ file_text ls1) (l @ [LF]) = Some err"
proof (induction ls arbitrary: fs)
  case Nil
  then show ?case by simp
next
  case (Cons l ls)
  show ?case
  proof (cases "write_fails (fs p) (content (fs p)) (l @ [LF])")
    case (Some err')
    with Cons.prems have "fs2 = fs" "err' = err" by (simp_all add: file_write_def)
    with Some have "l # ls = [] @ l # ls
        \<and> fs2 = fs(p := (fs p)\<lparr>content := content (fs p) @ file_text []\<rparr>)
        \<and> write_fails (fs p) (content (fs p) @ file_text []) (l @ [LF]) = Some err"
      by (simp add: file_text_def)
    then show ?thesis by blast
  next
    case None
    let ?fs1 = "fs(p := (fs p)\<lparr>content := content (fs p) @ l @ [LF]\<rparr>)"
    from None Cons.prems have "write_lines ?fs1 p ls = (fs2, Some err)"
      by (simp add: file_write_def)
    then have "\<exists>ls1 k ls2. ls = ls1 @ k # ls2
        \<and> fs2 = ?fs1(p := (?fs1 p)\<lparr>content := content (?fs1 p) @ file_text ls1\<rparr>)
        \<and> write_fails (?fs1 p) (content (?fs1 p) @ file_text ls1) (k @ [LF]) = Some err"
      by (rule Cons.IH)
    then obtain ls1 k ls2 where
      a: "ls = ls1 @ k # ls2"
         "fs2 = ?fs1(p := (?fs1 p)\<lparr>content := content (?fs1 p) @ file_text ls1\<rparr>)"
         "write_fails (?fs1 p) (content (?fs1 p) @ file_text ls1) (k @ [LF]) = Some err"
      by blast
    have "l # ls = (l # ls1) @ k # ls2
        \<and> fs2 = fs(p := (fs p)\<lparr>content := content (fs p) @ file_text (l # ls1)\<rparr>)
        \<and> write_fails (fs p) (content (fs p) @ file_text (l # ls1)) (k @ [LF]) = Some err"
      using a by (simp add: file_text_def)
    then show ?thesis by blast
  qed
qed

lemma write_lines_succeeds:
  "\<forall>d. \<forall>l \<in> set ls. write_fails (fs p) d (l @ [LF]) = None \<Longrightarrow>
   \<exists>fs2. write_lines fs p ls = (fs2, None)"
proof (induction ls arbitrary: fs)
  case Nil
  then show ?case by simp
next
  case (Cons l ls)
  let ?fs1 = "fs(p := (fs p)\<lparr>content := content (fs p) @ l @ [LF]\<rparr>)"
  have "\<forall>d. \<forall>k \<in> set ls. write_fails (?fs1 p) d (k @ [LF]) = None"
    using Cons.prems by simp
  then have "\<exists>fs2. write_lines ?fs1 p ls = (fs2, None)"
    by (rule Cons.IH)
  then obtain fs2 where "write_lines ?fs1 p ls = (fs2, None)"
    by blast
  moreover have "write_fails (fs p) (content (fs p)) (l @ [LF]) = None"
    using Cons.prems by simp
  ultimately show ?case
    by (simp add: file_write_def)
qed

lemma save_file_success:
  assumes "save_file fs e = (fs', e', True)"
  shows "\<exists>p. filename_set e = Some p
             \<and> write_error (fs p) = None
             \<and> content (fs' p) = file_text (text_lines e)
             \<and> read_error (fs' p)
                 = (if read_error (fs p) = Some FileNotFoundError then None else read_error (fs p))
             \<and> filename e' = filename e"
proof (cases "filename_set e")
  case None
  with assms show ?thesis by (simp add: save_file_def)
next
  case (Some p)
  show ?thesis
  proof (cases "open_write fs p")
    case (Inl err)
    with assms Some show ?thesis by (simp add: save_file_def)
  next
    case (Inr fs1)
    then have w: "write_error (fs p) = None"
      and fs1: "fs1 = fs(p := (fs p)\<lparr>content := [],
                  read_error := (if read_error (fs p) = Some FileNotFoundError then None
                                 else read_error (fs p))\<rparr>)"
      by (auto simp: open_write_def split: option.splits)
    obtain fs2 r where wl: "write_lines fs1 p (text_lines e) = (fs2, r)"
      by (cases "write_lines fs1 p (text_lines e)")
    show ?thesis
    proof (cases r)
      case (Some err)
      with assms \<open>filename_set e = Some p\<close> Inr wl show ?thesis
        by (simp add: save_file_def)
    next
      case None
      with wl have "fs2 = fs1(p := (fs1 p)\<lparr>content := content (fs1 p) @ file_text (text_lines e)\<rparr>)"
        by (simp add: write_lines_done)
      moreover from assms \<open>filename_set e = Some p\<close> Inr wl None
      have "fs' = fs2" "e' = set_status_message (codepoints ''Saved: '' @ p) 5 (e\<lparr>modified := False\<rparr>)"
        by (simp_all add: save_file_def)
      ultimately show ?thesis
        using \<open>filename_set e = Some p\<close> w fs1 by (simp add: set_status_message_def)
    qed
  qed
qed

lemma save_file_succeeds:
  assumes "filename_set e = Some p" and "write_error (fs p) = None"
    and "\<forall>d. \<forall>l \<in> set (text_lines e). write_fails (fs p) d (l @ [LF]) = None"
  shows "\<exists>fs' e'. save_file fs e = (fs', e', True)"
proof -
  let ?fs1 = "fs(p := (fs p)\<lparr>content := [],
                  read_error := (if read_error (fs p) = Some FileNotFoundError then None
                                 else read_error (fs p))\<rparr>)"
  have o: "open_write fs p = Inr ?fs1"
    using assms(2) by (simp add: open_write_def)
  have "\<forall>d. \<forall>l \<in> set (text_lines e). write_fails (?fs1 p) d (l @ [LF]) = None"
    using assms(3) by simp
  then have "\<exists>fs2. write_lines ?fs1 p (text_lines e) = (fs2, None)"
    by (rule write_lines_succeeds)
  then obtain fs2 where "write_lines ?fs1 p (text_lines e) = (fs2, None)"
    by blast
  then show ?thesis
    using assms(1) o by (simp add: save_file_def)
qed

lemma save_file_write_stopped:
  assumes "save_file fs e = (fs', e', False)"
    and "filename_set e = Some p" and "write_error (fs p) = None"
  shows "\<exists>ls1 l ls2 err. text_lines e = ls1 @ l # ls2
           \<and> write_fails (fs p) (file_text ls1) (l @ [LF]) = Some err
           \<and> content (fs' p) = file_text ls1
           \<and> e' = set_status_message (codepoints ''Error saving: '' @ py_str err) 5 e"
proof -
  let ?fs1 = "fs(p := (fs p)\<lparr>content := [],
                  read_error := (if read_error (fs p) = Some FileNotFoundError then None
                                 else read_error (fs p))\<rparr>)"
  have o: "open_write fs p = Inr ?fs1"
    using assms(3) by (simp add: open_write_def)
  obtain fs2 r where wl: "write_lines ?fs1 p (text_lines e) = (fs2, r)"
    by (cases "write_lines ?fs1 p (text_lines e)")
  show ?thesis
  proof (cases r)
    case None
    with assms(1,2) o wl show ?thesis by (simp add: save_file_def)
  next
    case (Some err)
    with wl have "write_lines ?fs1 p (text_lines e) = (fs2, Some err)"
      by simp
    then have "\<exists>ls1 l ls2. text_lines e = ls1 @ l # ls2
        \<and> fs2 = ?fs1(p := (?fs1 p)\<lparr>content := content (?fs1 p) @ file_text ls1\<rparr>)
        \<and> write_fails (?fs1 p) (content (?fs1 p) @ file_text ls1) (l @ [LF]) = Some err"
      by (rule write_lines_stopped)
    then obtain ls1 l ls2 where
      a: "text_lines e = ls1 @ l # ls2"
         "fs2 = ?fs1(p := (?fs1 p)\<lparr>content := content (?fs1 p) @ file_text ls1\<rparr>)"
         "write_fails (?fs1 p) (content (?fs1 p) @ file_text ls1) (l @ [LF]) = Some err"
      by blast
    from assms(1,2) o wl Some
    have "fs' = fs2" "e' = set_status_message (codepoints ''Error saving: '' @ py_str err) 5 e"
      by (simp_all add: save_file_def)
    with a have "text_lines e = ls1 @ l # ls2
           \<and> write_fails (fs p) (file_text ls1) (l @ [LF]) = Some err
           \<and> content (fs' p) = file_text ls1
           \<and> e' = set_status_message (codepoints ''Error saving: '' @ py_str err) 5 e"
      by simp
    then show ?thesis by blast
  qed
qed

lemma load_file_absent:
  "filename_set e = Some p \<Longrightarrow> read_error (fs p) = Some FileNotFoundError \<Longrightarrow>
   \<exists>e'. load_file fs e = Inr e' \<and> text_lines e' = [[]]"
  by (simp add: load_file_def open_read_def set_status_message_def)

lemma load_file_raises_iff:
  "load_file fs e = Inl err \<longleftrightarrow>
     (\<exists>p. filename_set e = Some p \<and> read_error (fs p) = Some err \<and> err \<noteq> FileNotFoundError)"
  by (auto simp add: load_file_def open_read_def split: option.splits py_error.splits)

lemma save_file_no_path:
  "filename_set e = None \<Longrightarrow> save_file fs e = (fs, e, False)"
  by (simp add: save_file_def)

lemma save_file_failing:
  "filename_set e = Some p \<Longrightarrow> write_error (fs p) = Some err \<Longrightarrow>
   save_file fs e = (fs, set_status_message (codepoints ''Error saving: '' @ py_str err) 5 e, False)"
  by (simp add: save_file_def open_write_def)

lemma save_file_reports:
  "save_file fs e = (fs', e', False) \<Longrightarrow>
   e' = e \<and> fs' = fs \<and> filename_set e = None
   \<or> (\<exists>err. e' = set_status_message (codepoints ''Error saving: '' @ py_str err) 5 e)"
  by (auto simp add: save_file_def split: option.splits sum.splits prod.splits)

text \<open>
  Two paths that the operating system can hold: one in a directory that does not exist,
  which \<open>load_file\<close> takes for a new file and \<open>save_file\<close> cannot write; and a file
  that can be written but not read.
\<close>

lemma missing_directory_new_file_not_saved:
  assumes "filename_set e = Some p" and "read_error (fs p) = Some FileNotFoundError"
    and "write_error (fs p) = Some (OSError msg)"
  shows "(\<exists>e'. load_file fs e = Inr e' \<and> text_lines e' = [[]])
         \<and> save_file fs e
             = (fs, set_status_message (codepoints ''Error saving: '' @ msg) 5 e, False)"
proof -
  have "\<exists>e'. load_file fs e = Inr e' \<and> text_lines e' = [[]]"
    using assms(1,2) by (rule load_file_absent)
  moreover have "save_file fs e
      = (fs, set_status_message (codepoints ''Error saving: '' @ py_str (OSError msg)) 5 e, False)"
    using assms(1,3) by (rule save_file_failing)
  ultimately show ?thesis
    by (simp add: py_str_def)
qed

lemma written_file_may_not_read_back:
  assumes "filename_set e = Some p" and "write_error (fs p) = None"
    and "\<forall>d. \<forall>l \<in> set (text_lines e). write_fails (fs p) d (l @ [LF]) = None"
    and "read_error (fs p) = Some (OSError msg)"
  shows "\<exists>fs' e'. save_file fs e = (fs', e', True) \<and> load_file fs' e' = Inl (OSError msg)"
proof -
  have "\<exists>fs' e'. save_file fs e = (fs', e', True)"
    using assms(1,2,3) by (rule save_file_succeeds)
  then obtain fs' e' where s: "save_file fs e = (fs', e', True)"
    by blast
  from save_file_success [OF s] assms(1,4) have
    "read_error (fs' p) = Some (OSError msg)" "filename e' = filename e"
    by auto
  then have "load_file fs' e' = Inl (OSError msg)"
    using assms(1) by (simp add: load_file_def open_read_def filename_set_def)
  with s show ?thesis by blast
qed

section \<open>The properties of the specification\<close>

subsection \<open>C1: the invariants along a sequence of edits\<close>

text \<open>
  C1. From a state where the document has at least one line and the cursor is inside it
  (\<open>0 \<le> row < len(Document)\<close>, \<open>0 \<le> column \<le> len(Document[row])\<close>), every finite sequence
  of \<open>insert_char\<close> (of a character code), \<open>insert_newline\<close> and \<open>delete_char\<close> runs without
  an exception, and both invariants hold in the state after each operation of the sequence.
\<close>

theorem edits_preserve_invariants:
  assumes "document_inv e \<and> cursor_inv e" and "list_all edit_ok ops"
  shows "\<exists>es. run_edits e ops = Inr es \<and> length es = length ops
              \<and> list_all (\<lambda>e'. document_inv e' \<and> cursor_inv e') es"
  using assms
proof (induction ops arbitrary: e)
  case Nil
  then show ?case by simp
next
  case (Cons x xs)
  from Cons.prems have v: "valid e" and ok: "edit_ok x" and rest: "list_all edit_ok xs"
    by (simp_all add: valid_def)
  have "\<exists>e'. apply_edit x e = Inr e' \<and> valid e'"
  proof (cases x)
    case (InsertChar ch)
    with v ok show ?thesis by (simp add: insert_char_preserves_valid)
  next
    case InsertNewline
    with v show ?thesis by (simp add: insert_newline_preserves_valid)
  next
    case DeleteBackward
    with v show ?thesis by (simp add: delete_char_preserves_valid)
  qed
  then obtain e' where e': "apply_edit x e = Inr e'" "valid e'"
    by blast
  from e'(2) have "document_inv e' \<and> cursor_inv e'"
    by (simp add: valid_def)
  from Cons.IH [OF this rest] obtain es where
    es: "run_edits e' xs = Inr es" "length es = length xs"
        "list_all (\<lambda>e'. document_inv e' \<and> cursor_inv e') es"
    by blast
  show ?case
    using e' es by (simp add: valid_def)
qed

theorem edits_preserve_invariants_witness:
  "(document_inv (editor_at [codepoints ''ab''] 0 1) \<and> cursor_inv (editor_at [codepoints ''ab''] 0 1))
   \<and> list_all edit_ok [InsertChar 120, InsertNewline, DeleteBackward, DeleteBackward]
   \<and> (\<exists>es. run_edits (editor_at [codepoints ''ab''] 0 1)
               [InsertChar 120, InsertNewline, DeleteBackward, DeleteBackward] = Inr es
            \<and> length es = length [InsertChar 120, InsertNewline, DeleteBackward, DeleteBackward]
            \<and> list_all (\<lambda>e'. document_inv e' \<and> cursor_inv e') es)"
proof -
  have h1: "document_inv (editor_at [codepoints ''ab''] 0 1)
            \<and> cursor_inv (editor_at [codepoints ''ab''] 0 1)"
    by (simp add: document_inv_def cursor_inv_def editor_at_def codepoints_def)
  have h2: "list_all edit_ok [InsertChar 120, InsertNewline, DeleteBackward, DeleteBackward]"
    by simp
  show ?thesis
    using h1 h2 edits_preserve_invariants [OF h1 h2] by blast
qed

subsection \<open>C2: the scroll offset after \<open>scroll_if_needed\<close>\<close>

text \<open>
  C2. For every viewport height above zero, the scroll offset left by the adjustment of
  \<open>scroll_if_needed\<close> satisfies \<open>scroll \<le> cursor.row < scroll + viewportHeight\<close>, and
  the cursor is not moved. Under a \<open>CatEditor\<close> the method itself returns such a state
  for the height that \<open>calculate_editor_space\<close> gives. With a viewport of 10 rows, the
  cursor on row 25 and the scroll at 0, the scroll becomes 16, which is
  \<open>cursor.row - viewportHeight + 1\<close>; a terminal of 18 rows showing 30 lines is such a case.
\<close>

theorem scroll_keeps_cursor_visible:
  "(0 < vh \<longrightarrow>
      scroll_y (scroll_to_cursor vh e) \<le> cursor_y (scroll_to_cursor vh e)
      \<and> cursor_y (scroll_to_cursor vh e) < scroll_y (scroll_to_cursor vh e) + vh
      \<and> cursor_y (scroll_to_cursor vh e) = cursor_y e)
   \<and> (cat_editor e \<longrightarrow>
        (\<exists>e'. scroll_if_needed height e = Inr e'
           \<and> scroll_y e' \<le> cursor_y e'
           \<and> cursor_y e' < scroll_y e' + calculate_editor_space height (text_lines e)))
   \<and> (cursor_y e = 25 \<and> scroll_y e = 0 \<longrightarrow>
        scroll_y (scroll_to_cursor 10 e) = 16 \<and> 16 = cursor_y e - 10 + 1)
   \<and> (cat_editor e \<and> length (text_lines e) = 30 \<and> cursor_y e = 25 \<and> scroll_y e = 0 \<longrightarrow>
        calculate_editor_space 18 (text_lines e) = 10
        \<and> scroll_if_needed 18 e = Inr (e\<lparr>scroll_y := 16\<rparr>))"
proof (intro conjI impI)
  assume "cursor_y e = 25 \<and> scroll_y e = 0"
  then show "scroll_y (scroll_to_cursor 10 e) = 16"
    by (simp add: scroll_to_cursor_def)
next
  assume "cursor_y e = 25 \<and> scroll_y e = 0"
  then show "16 = cursor_y e - 10 + 1" by simp
next
  assume "cat_editor e"
  let ?vh = "calculate_editor_space height (text_lines e)"
  have cy: "cursor_y (scroll_to_cursor ?vh e) = cursor_y e"
    by (simp add: scroll_to_cursor_def Let_def)
  show "\<exists>e'. scroll_if_needed height e = Inr e'
           \<and> scroll_y e' \<le> cursor_y e'
           \<and> cursor_y e' < scroll_y e' + calculate_editor_space height (text_lines e)"
    using \<open>cat_editor e\<close> cy
      scroll_to_cursor_visible [OF calculate_editor_space_pos, of height "text_lines e" e]
    by (simp add: scroll_if_needed_def)
next
  assume "0 < vh"
  have cy: "cursor_y (scroll_to_cursor vh e) = cursor_y e"
    by (simp add: scroll_to_cursor_def Let_def)
  show "scroll_y (scroll_to_cursor vh e) \<le> cursor_y (scroll_to_cursor vh e)"
    using scroll_to_cursor_visible [OF \<open>0 < vh\<close>, of e] cy by simp
  show "cursor_y (scroll_to_cursor vh e) < scroll_y (scroll_to_cursor vh e) + vh"
    using scroll_to_cursor_visible [OF \<open>0 < vh\<close>, of e] cy by simp
  show "cursor_y (scroll_to_cursor vh e) = cursor_y e" by (rule cy)
next
  assume a: "cat_editor e \<and> length (text_lines e) = 30 \<and> cursor_y e = 25 \<and> scroll_y e = 0"
  then show vh: "calculate_editor_space 18 (text_lines e) = 10"
    by (simp add: calculate_editor_space_def cat_head_height_def cat_bottom_height_def
        min_editor_lines_def)
  show "scroll_if_needed 18 e = Inr (e\<lparr>scroll_y := 16\<rparr>)"
    using a vh by (simp add: scroll_if_needed_def scroll_to_cursor_def)
qed

theorem scroll_keeps_cursor_visible_witness:
  "(0::int) < 10
   \<and> cat_editor (editor_at (replicate 30 []) 25 0)
   \<and> length (text_lines (editor_at (replicate 30 []) 25 0)) = 30
   \<and> cursor_y (editor_at (replicate 30 []) 25 0) = 25
   \<and> scroll_y (editor_at (replicate 30 []) 25 0) = 0
   \<and> scroll_y (scroll_to_cursor 10 (editor_at (replicate 30 []) 25 0)) = 16
   \<and> scroll_if_needed 18 (editor_at (replicate 30 []) 25 0)
       = Inr ((editor_at (replicate 30 []) 25 0)\<lparr>scroll_y := 16\<rparr>)"
  using scroll_keeps_cursor_visible [of 10 "editor_at (replicate 30 []) 25 0" 18]
  by (simp add: editor_at_def)

subsection \<open>C3: the height of the editor\<close>

text \<open>
  C3. For every terminal height and every document, \<open>calculate_editor_space\<close> is
  \<open>max(min(len(Document) + 5, terminalHeight - 3 - 4 - 1), 5)\<close>; for a terminal of 20 rows
  and a document of 2 lines it is 7.
\<close>

theorem calculate_editor_space_formula:
  "calculate_editor_space terminalHeight txt
     = max (min (int (length txt) + 5) (terminalHeight - 3 - 4 - 1)) 5
   \<and> (length txt = 2 \<longrightarrow> calculate_editor_space 20 txt = 7)"
  by (simp add: calculate_editor_space_def Let_def min_editor_lines_def cat_head_height_def
      cat_bottom_height_def)

theorem calculate_editor_space_formula_witness:
  "length [codepoints ''a'', codepoints ''b''] = 2
   \<and> calculate_editor_space 20 [codepoints ''a'', codepoints ''b''] = 7"
  using calculate_editor_space_formula [of 20 "[codepoints ''a'', codepoints ''b'']"]
  by simp

subsection \<open>C4: the rows handed to the editor\<close>

text \<open>
  On a terminal of 10 rows and 50 columns, which passes the guard, a one-line document
  gets the rows 3 to 6: three rows, although \<open>calculate_editor_space\<close> is 5. So the two
  halves of C4 cannot both hold: the clamp wins over the computed height.
\<close>

theorem editor_rows_clamped_on_short_terminal:
  "\<not> ((10::int) < 10 \<or> (50::int) < 50)
   \<and> draw_cat_rows 10 50 [[]] = Some (3, 6)
   \<and> calculate_editor_space 10 [[]] = 5
   \<and> (6::int) - 3 \<noteq> calculate_editor_space 10 [[]]"
  by (simp add: draw_cat_rows_def calculate_editor_space_def Let_def min_editor_lines_def
      cat_head_height_def cat_bottom_height_def)

text \<open>
  C4, amended. For every terminal that passes the guard (at least 10 rows and 50 columns),
  \<open>draw_cat\<close> hands the editor the rows from \<open>cat_head_height\<close> to an end row that is at most
  \<open>terminalHeight - cat_bottom_height\<close>; the number of rows is the smaller of the computed
  editor height and the space between the two parts of the frame, and it is the computed
  editor height on every terminal of at least 12 rows.
\<close>

theorem draw_cat_rows_contract:
  assumes "10 \<le> height" and "50 \<le> width"
  shows "\<exists>editor_end_row.
           draw_cat_rows height width txt = Some (cat_head_height, editor_end_row)
           \<and> editor_end_row \<le> height - cat_bottom_height
           \<and> editor_end_row - cat_head_height
               = min (calculate_editor_space height txt)
                     (height - cat_bottom_height - cat_head_height)
           \<and> (12 \<le> height \<longrightarrow>
                editor_end_row - cat_head_height = calculate_editor_space height txt)"
  using assms
  by (auto simp add: draw_cat_rows_def calculate_editor_space_def Let_def min_editor_lines_def
      cat_head_height_def cat_bottom_height_def)

theorem draw_cat_rows_contract_witness:
  "(10::int) \<le> 24 \<and> (50::int) \<le> 80 \<and> (12::int) \<le> 24
   \<and> draw_cat_rows 24 80 [codepoints ''a'', codepoints ''b''] = Some (3, 10)
   \<and> calculate_editor_space 24 [codepoints ''a'', codepoints ''b''] = 7"
  using draw_cat_rows_contract [of 24 80 "[codepoints ''a'', codepoints ''b'']"]
  by (simp add: calculate_editor_space_def Let_def min_editor_lines_def
      cat_head_height_def cat_bottom_height_def)

subsection \<open>C5: leaving with a modified buffer\<close>

text \<open>
  C5. When Ctrl+X is pressed while the buffer is modified, \<open>run\<close> clears \<open>running\<close>, the
  condition of its loop, exactly when the answer at the prompt is yes and \<open>save_file\<close>
  succeeds, or the answer is no; the files are written only on yes, by \<open>save_file\<close>.
  Every other answer leaves \<open>running\<close> as it was. The same holds for the boolean returned
  by the Ctrl+X branch of \<open>process_keypress\<close>. In \<open>run\<close> the yes answers are \<open>y\<close>, \<open>Y\<close>
  and Enter; in \<open>process_keypress\<close> they are \<open>y\<close> and \<open>Y\<close>. The quit keys \<open>q\<close> and
  Ctrl+Q never clear \<open>running\<close> while the buffer is modified.
\<close>

theorem exit_requires_resolved_prompt:
  assumes "modified (editor c)" and "modified e"
  shows
    "(let e1 = set_status_message (codepoints ''Save modified buffer? (Y/n)'') 5 (editor c);
          yes = (ch = ord CHR ''y'' \<or> ch = ord CHR ''Y'' \<or> ch = 10);
          no = (ch = ord CHR ''n'' \<or> ch = ord CHR ''N'');
          saved = snd (snd (save_file fs e1))
      in \<exists>fs' c'. run_input fs height 24 ch c = Inr (fs', c')
           \<and> (running c' \<longleftrightarrow> running c \<and> \<not> ((yes \<and> saved) \<or> no))
           \<and> fs' = (if yes then fst (save_file fs e1) else fs))
     \<and> (let e1 = set_status_message (codepoints ''Save modified buffer? (y/n)'') 100 e;
             yes = (ch = ord CHR ''y'' \<or> ch = ord CHR ''Y'');
             no = (ch = ord CHR ''n'' \<or> ch = ord CHR ''N'');
             saved = snd (snd (save_file fs e1))
         in \<exists>fs' e'. process_keypress fs height ch 24 e
                         = Inr (fs', e', \<not> ((yes \<and> saved) \<or> no))
              \<and> fs' = (if yes then fst (save_file fs e1) else fs))
     \<and> (key = ord CHR ''q'' \<or> key = 17 \<longrightarrow>
          (\<exists>c'. run_input fs height key ch c = Inr (fs, c') \<and> running c' = running c))"
proof (intro conjI)
  show "let e1 = set_status_message (codepoints ''Save modified buffer? (Y/n)'') 5 (editor c);
          yes = (ch = ord CHR ''y'' \<or> ch = ord CHR ''Y'' \<or> ch = 10);
          no = (ch = ord CHR ''n'' \<or> ch = ord CHR ''N'');
          saved = snd (snd (save_file fs e1))
      in \<exists>fs' c'. run_input fs height 24 ch c = Inr (fs', c')
           \<and> (running c' \<longleftrightarrow> running c \<and> \<not> ((yes \<and> saved) \<or> no))
           \<and> fs' = (if yes then fst (save_file fs e1) else fs)"
    using assms(1)
    by (auto simp add: run_input_def Let_def ord_def split: prod.splits)
next
  show "let e1 = set_status_message (codepoints ''Save modified buffer? (y/n)'') 100 e;
             yes = (ch = ord CHR ''y'' \<or> ch = ord CHR ''Y'');
             no = (ch = ord CHR ''n'' \<or> ch = ord CHR ''N'');
             saved = snd (snd (save_file fs e1))
         in \<exists>fs' e'. process_keypress fs height ch 24 e
                         = Inr (fs', e', \<not> ((yes \<and> saved) \<or> no))
              \<and> fs' = (if yes then fst (save_file fs e1) else fs)"
    using assms(2)
    by (auto simp add: process_keypress_def Let_def ord_def KEY_DOWN_def KEY_UP_def KEY_LEFT_def
        KEY_RIGHT_def KEY_HOME_def KEY_BACKSPACE_def KEY_DC_def KEY_END_def split: prod.splits)
next
  show "key = ord CHR ''q'' \<or> key = 17 \<longrightarrow>
          (\<exists>c'. run_input fs height key ch c = Inr (fs, c') \<and> running c' = running c)"
    using assms(1) by (auto simp add: run_input_def)
qed

theorem exit_requires_resolved_prompt_witness:
  "modified (editor \<lparr>editor = (editor_at [codepoints ''x''] 0 1)\<lparr>modified := True\<rparr>, running = True\<rparr>)
   \<and> modified ((editor_at [codepoints ''x''] 0 1)\<lparr>modified := True\<rparr>)
   \<and> (\<exists>c'. run_input empty_fs 24 24 120
              \<lparr>editor = (editor_at [codepoints ''x''] 0 1)\<lparr>modified := True\<rparr>, running = True\<rparr>
            = Inr (empty_fs, c') \<and> running c')
   \<and> (\<exists>e'. process_keypress empty_fs 24 120 24 ((editor_at [codepoints ''x''] 0 1)\<lparr>modified := True\<rparr>)
            = Inr (empty_fs, e', True))
   \<and> (\<exists>c'. run_input empty_fs 24 17 120
              \<lparr>editor = (editor_at [codepoints ''x''] 0 1)\<lparr>modified := True\<rparr>, running = True\<rparr>
            = Inr (empty_fs, c') \<and> running c')"
  using exit_requires_resolved_prompt
    [of "\<lparr>editor = (editor_at [codepoints ''x''] 0 1)\<lparr>modified := True\<rparr>, running = True\<rparr>"
        "(editor_at [codepoints ''x''] 0 1)\<lparr>modified := True\<rparr>" 120 empty_fs 24 17]
  by (simp add: ord_def Let_def)

subsection \<open>C6: failures of the file system\<close>

text \<open>
  C6. The specification has every failure of the file system other than a missing file
  reported in the status message and never raised, on load as on save. \<open>save_file\<close> does
  so (\<open>save_file_failing\<close>), a missing file is loaded as one empty line
  (\<open>load_file_absent\<close>) and saving without a path writes nothing (\<open>save_file_no_path\<close>).
  But \<open>load_file\<close> catches \<open>FileNotFoundError\<close> only (\<open>load_file_raises_iff\<close>): here
  \<open>notes.txt\<close> exists and \<open>open\<close> raises for a missing permission, and the exception
  leaves \<open>load_file\<close> and the constructor with no status message set.
\<close>

theorem load_file_raises_other_errors:
  "TextEditor_init (empty_fs(codepoints ''notes.txt''
                      := Failing (codepoints ''[Errno 13] Permission denied'')))
       (Some (codepoints ''notes.txt''))
     = Inl (OSError (codepoints ''[Errno 13] Permission denied''))"
  by (simp add: TextEditor_init_def load_file_def filename_set_def open_read_def codepoints_def
      Failing_def)

subsection \<open>C7: \<open>delete_char\<close>\<close>

text \<open>
  C7. On every valid state \<open>delete_char\<close> returns: with the column above 0, the state with
  the character before the column removed, the column one less and the modified flag set;
  otherwise, with the row above 0, the state with the current line appended to the previous
  one and removed, the cursor on the previous row at the former length of that line, and
  the flag set; otherwise the state itself, flag included. From \<open>["ab"]\<close> at \<open>(0, 2)\<close> two
  calls give \<open>[""]\<close> at \<open>(0, 0)\<close> and a third call changes nothing.
\<close>

theorem delete_char_behaviour:
  "(valid e \<longrightarrow>
      delete_char e =
        Inr (if cursor_x e > 0 then
               e\<lparr>text_lines :=
                   (text_lines e)[nat (cursor_y e) :=
                      take (nat (cursor_x e - 1)) (text_lines e ! nat (cursor_y e))
                      @ drop (nat (cursor_x e)) (text_lines e ! nat (cursor_y e))],
                 cursor_x := cursor_x e - 1, modified := True\<rparr>
             else if cursor_y e > 0 then
               e\<lparr>text_lines :=
                   take (nat (cursor_y e - 1)) (text_lines e)
                   @ [text_lines e ! nat (cursor_y e - 1) @ text_lines e ! nat (cursor_y e)]
                   @ drop (Suc (nat (cursor_y e))) (text_lines e),
                 cursor_x := int (length (text_lines e ! nat (cursor_y e - 1))),
                 cursor_y := cursor_y e - 1, modified := True\<rparr>
             else e))
   \<and> delete_char (editor_at [codepoints ''ab''] 0 2)
       = Inr ((editor_at [codepoints ''a''] 0 1)\<lparr>modified := True\<rparr>)
   \<and> delete_char ((editor_at [codepoints ''a''] 0 1)\<lparr>modified := True\<rparr>)
       = Inr ((editor_at [[]] 0 0)\<lparr>modified := True\<rparr>)
   \<and> delete_char ((editor_at [[]] 0 0)\<lparr>modified := True\<rparr>)
       = Inr ((editor_at [[]] 0 0)\<lparr>modified := True\<rparr>)
   \<and> delete_char (editor_at [[]] 0 0) = Inr (editor_at [[]] 0 0)"
proof -
  have ex:
    "delete_char (editor_at [codepoints ''ab''] 0 2)
       = Inr ((editor_at [codepoints ''a''] 0 1)\<lparr>modified := True\<rparr>)"
    "delete_char ((editor_at [codepoints ''a''] 0 1)\<lparr>modified := True\<rparr>)
       = Inr ((editor_at [[]] 0 0)\<lparr>modified := True\<rparr>)"
    "delete_char ((editor_at [[]] 0 0)\<lparr>modified := True\<rparr>)
       = Inr ((editor_at [[]] 0 0)\<lparr>modified := True\<rparr>)"
    "delete_char (editor_at [[]] 0 0) = Inr (editor_at [[]] 0 0)"
    by (simp_all add: delete_char_def editor_at_def codepoints_def py_index_def py_setitem_def py_position_def
        slice_to_def slice_from_def slice_bound_def)
  show ?thesis
    by (intro conjI impI; (rule ex | erule delete_char_valid))
qed

theorem delete_char_behaviour_witness:
  "valid (editor_at [codepoints ''ab'', codepoints ''cd''] 1 0)
   \<and> delete_char (editor_at [codepoints ''ab'', codepoints ''cd''] 1 0)
       = Inr ((editor_at [codepoints ''abcd''] 0 2)\<lparr>modified := True\<rparr>)"
  using delete_char_behaviour [of "editor_at [codepoints ''ab'', codepoints ''cd''] 1 0"]
  by (simp add: valid_def document_inv_def cursor_inv_def editor_at_def codepoints_def)

subsection \<open>C8: \<open>insert_newline\<close>\<close>

text \<open>
  C8. On every valid state \<open>insert_newline\<close> cuts the current line at the column, puts the
  rest of it as a new line right after, and leaves the cursor at \<open>(row + 1, 0)\<close> with the
  modified flag set. From \<open>["abc", "de", "f"]\<close> at \<open>(1, 2)\<close> it gives
  \<open>["abc", "de", "", "f"]\<close> at \<open>(2, 0)\<close>.
\<close>

theorem insert_newline_behaviour:
  "(valid e \<longrightarrow>
      insert_newline e =
        Inr (e\<lparr>text_lines :=
                 take (nat (cursor_y e)) (text_lines e)
                 @ [take (nat (cursor_x e)) (text_lines e ! nat (cursor_y e)),
                    drop (nat (cursor_x e)) (text_lines e ! nat (cursor_y e))]
                 @ drop (Suc (nat (cursor_y e))) (text_lines e),
               cursor_y := cursor_y e + 1, cursor_x := 0, modified := True\<rparr>))
   \<and> insert_newline (editor_at [codepoints ''abc'', codepoints ''de'', codepoints ''f''] 1 2)
       = Inr ((editor_at [codepoints ''abc'', codepoints ''de'', [], codepoints ''f''] 2 0)
                \<lparr>modified := True\<rparr>)"
proof -
  have ex:
    "insert_newline (editor_at [codepoints ''abc'', codepoints ''de'', codepoints ''f''] 1 2)
       = Inr ((editor_at [codepoints ''abc'', codepoints ''de'', [], codepoints ''f''] 2 0)
                \<lparr>modified := True\<rparr>)"
    by (simp add: insert_newline_def editor_at_def codepoints_def py_index_def py_setitem_def py_position_def
        slice_to_def slice_from_def slice_bound_def ensure_line_def py_insert_def)
  show ?thesis
    by (intro conjI impI; (rule ex | erule insert_newline_valid))
qed

theorem insert_newline_behaviour_witness:
  "valid (editor_at [codepoints ''hello''] 0 2)
   \<and> insert_newline (editor_at [codepoints ''hello''] 0 2)
       = Inr ((editor_at [codepoints ''he'', codepoints ''llo''] 1 0)\<lparr>modified := True\<rparr>)"
  using insert_newline_behaviour [of "editor_at [codepoints ''hello''] 0 2"]
  by (simp add: valid_def document_inv_def cursor_inv_def editor_at_def codepoints_def)

subsection \<open>C9: saving and loading again\<close>



subsection \<open>C10: cursor motion\<close>

text \<open>
  C10. The specification wants motion at an edge of the buffer to be a no-op that throws
  nothing. On a state that satisfies the invariants it is (\<open>move_cursor_on_valid_state\<close>).
  But a file without any text is loaded as a document without lines, the cursor at
  \<open>(0, 0)\<close>, and there Right and End raise \<open>IndexError\<close>: \<open>move_cursor\<close> reads
  \<open>self.text[self.cursor_y]\<close> without the guard for an empty text that \<open>insert_char\<close>,
  \<open>insert_newline\<close> and \<open>delete_char\<close> have, and the exception leaves \<open>process_keypress\<close>
  and \<open>run\<close>.
\<close>

theorem move_cursor_raises_on_empty_document:
  "CatEditor_init (empty_fs(codepoints ''empty.txt'' := Regular []))
       (Some (codepoints ''empty.txt''))
     = Inr \<lparr>editor = (editor_at [] 0 0)
                \<lparr>filename := Some (codepoints ''empty.txt''),
                 status_message := codepoints ''Read file: empty.txt'', status_timer := 5\<rparr>,
            running = True\<rparr>
   \<and> move_cursor KEY_RIGHT
        ((editor_at [] 0 0)
           \<lparr>filename := Some (codepoints ''empty.txt''),
            status_message := codepoints ''Read file: empty.txt'', status_timer := 5\<rparr>)
       = Inl IndexError
   \<and> move_cursor KEY_END
        ((editor_at [] 0 0)
           \<lparr>filename := Some (codepoints ''empty.txt''),
            status_message := codepoints ''Read file: empty.txt'', status_timer := 5\<rparr>)
       = Inl IndexError
   \<and> run_input (empty_fs(codepoints ''empty.txt'' := Regular [])) 24 KEY_RIGHT 0
        \<lparr>editor = (editor_at [] 0 0)
            \<lparr>filename := Some (codepoints ''empty.txt''),
             status_message := codepoints ''Read file: empty.txt'', status_timer := 5\<rparr>,
         running = True\<rparr>
       = Inl IndexError"
proof -
  let ?e = "(editor_at [] 0 0)
              \<lparr>filename := Some (codepoints ''empty.txt''),
               status_message := codepoints ''Read file: empty.txt'', status_timer := 5\<rparr>"
  have init: "CatEditor_init (empty_fs(codepoints ''empty.txt'' := Regular []))
                  (Some (codepoints ''empty.txt''))
                = Inr \<lparr>editor = ?e, running = True\<rparr>"
    by (simp add: CatEditor_init_def TextEditor_init_def load_file_def filename_set_def
        open_read_def Regular_def readlines_def set_status_message_def editor_at_def
        codepoints_def)
  have idx: "py_index (text_lines ?e) (cursor_y ?e) = Inl IndexError"
    by (simp add: editor_at_def py_index_def py_position_def)
  have right: "move_cursor KEY_RIGHT ?e = Inl IndexError"
    unfolding move_cursor_def using idx by simp
  have end_key: "move_cursor KEY_END ?e = Inl IndexError"
    unfolding move_cursor_def using idx
    by (simp add: KEY_DOWN_def KEY_UP_def KEY_LEFT_def KEY_RIGHT_def KEY_HOME_def KEY_END_def)
  have "process_keypress (empty_fs(codepoints ''empty.txt'' := Regular [])) 24 0 KEY_RIGHT ?e
          = Inl IndexError"
    unfolding process_keypress_def using right by simp
  then have run: "run_input (empty_fs(codepoints ''empty.txt'' := Regular [])) 24 KEY_RIGHT 0
                    \<lparr>editor = ?e, running = True\<rparr> = Inl IndexError"
    by (simp add: run_input_def KEY_RIGHT_def ord_def)
  show ?thesis
    using init right end_key run by (intro conjI)
qed

end
